theory Spec2Isabelle
  imports Complex_Main "HOL-Library.Sublist"
begin

section \<open>Python values used by the service\<close>

text \<open>
  A Python \<open>str\<close> is a sequence of Unicode code points, and \<open>len\<close> counts code
  points. The messages of the service start with emoji, which are outside ASCII, so a
  string is modelled as the list of its code points. \<open>str_of\<close> embeds an ASCII
  literal.
\<close>

type_synonym pystr = "nat list"

definition str_of :: "string \<Rightarrow> pystr" where
  "str_of s = map of_char s"

text \<open>
  A Python \<open>float\<close> is a finite double, an infinity or NaN. Every finite double is a
  real number, so the finite values are embedded in \<open>real\<close>. Comparisons with NaN
  are false.
\<close>

datatype pyfloat = Float real | PInf | NInf | NaN

fun float_gt :: "pyfloat \<Rightarrow> pyfloat \<Rightarrow> bool" where
  "float_gt NaN _ = False"
| "float_gt _ NaN = False"
| "float_gt (Float a) (Float b) = (b < a)"
| "float_gt (Float a) PInf = False"
| "float_gt (Float a) NInf = True"
| "float_gt PInf PInf = False"
| "float_gt PInf _ = True"
| "float_gt NInf _ = False"

text \<open>
  The literal \<open>0.9\<close> of the source denotes the double nearest to nine tenths, whose
  exact value is \<open>8106479329266893 / 2^53\<close> (hexadecimal \<open>0x1.ccccccccccccdp-1\<close>).
\<close>

definition lit_0_9 :: pyfloat where
  "lit_0_9 = Float (8106479329266893 / 9007199254740992)"

text \<open>
  \<open>sub in s\<close> on strings: \<open>sub\<close> occurs in \<open>s\<close> as a contiguous run of code
  points. The empty string occurs in every string.
\<close>

fun str_in :: "pystr \<Rightarrow> pystr \<Rightarrow> bool" where
  "str_in sub [] = (sub = [])"
| "str_in sub (c # cs) = (prefix sub (c # cs) \<or> str_in sub cs)"

text \<open>
  \<open>any(word in s for word in words)\<close>: the generator is consumed from the left and
  stops at the first hit.
\<close>

fun any_word_in :: "pystr list \<Rightarrow> pystr \<Rightarrow> bool" where
  "any_word_in [] s = False"
| "any_word_in (word # words) s = (if str_in word s then True else any_word_in words s)"

section \<open>The recommendation selector\<close>

text \<open>The dictionary \<open>{'message': message, 'tips': tips}\<close> that the selector returns.\<close>

record recommendation =
  message :: pystr
  tips :: "pystr list"

text \<open>
  \<open>get_personalized_recommendation(sentiment, confidence, text)\<close>. The only call the
  body makes is \<open>text.lower()\<close>, Python's Unicode lowercasing, which the model takes
  as the parameter \<open>lower\<close>; everything proved below holds for every such function.
\<close>

definition get_personalized_recommendation ::
  "(pystr \<Rightarrow> pystr) \<Rightarrow> pystr \<Rightarrow> pyfloat \<Rightarrow> pystr \<Rightarrow> recommendation" where
  "get_personalized_recommendation lower sentiment confidence text =
    (let text_lower = lower text in
     if sentiment = str_of ''POSITIVE'' then
       (if float_gt confidence lit_0_9 then
          \<lparr>message = [127775] @ str_of '' You're radiating positive energy! This is wonderful to see.'',
           tips = [
             [127925] @ str_of '' Listen to your favorite uplifting music'',
             [128222] @ str_of '' Share this positive energy with a friend'',
             [128221] @ str_of '' Write down what made you feel good today'',
             [127793] @ str_of '' Use this momentum for a creative project'']\<rparr>
        else
          \<lparr>message = [128522] @ str_of '' You seem to be feeling good! Let's build on these positive vibes.'',
           tips = [
             [128694, 8205, 9792, 65039] @ str_of '' Take a pleasant walk outside'',
             [128214] @ str_of '' Read something inspiring'',
             [129496, 8205, 9792, 65039] @ str_of '' Practice gratitude meditation'',
             [128170] @ str_of '' Try a fun physical activity'']\<rparr>)
     else if sentiment = str_of ''NEGATIVE'' then
       (if any_word_in [str_of ''anxious'', str_of ''anxiety'', str_of ''worried'', str_of ''stress'']
             text_lower then
          \<lparr>message = [128524] @ str_of '' I understand you're feeling anxious. Remember, this feeling will pass.'',
           tips = [
             [129729] @ str_of '' Try deep breathing exercises (4-7-8 technique)'',
             [129496, 8205, 9792, 65039] @ str_of '' Practice a 5-minute mindfulness meditation'',
             [128241] @ str_of '' Use a calming app like Headspace or Calm'',
             [9742, 65039] @ str_of '' Consider talking to a trusted friend or counselor'']\<rparr>
        else if any_word_in [str_of ''sad'', str_of ''depressed'', str_of ''down'', str_of ''upset'']
             text_lower then
          \<lparr>message = [128153] @ str_of '' I hear that you're going through a tough time. Your feelings are valid.'',
           tips = [
             [127749] @ str_of '' Try to get some natural sunlight'',
             [127912] @ str_of '' Express yourself through art, writing, or music'',
             [127939, 8205, 9792, 65039] @ str_of '' Light exercise can help boost mood'',
             [129303] @ str_of '' Reach out to someone who cares about you'']\<rparr>
        else if any_word_in [str_of ''angry'', str_of ''mad'', str_of ''frustrated'', str_of ''irritated'']
             text_lower then
          \<lparr>message = [128548] @ str_of '' It sounds like you're feeling frustrated. Let's work on channeling this energy.'',
           tips = [
             [128168] @ str_of '' Take 10 deep breaths before reacting'',
             [127947, 65039, 8205, 9792, 65039] @ str_of '' Try physical exercise to release tension'',
             [128221] @ str_of '' Write down your feelings in a journal'',
             [127919] @ str_of '' Focus on what you can control in the situation'']\<rparr>
        else
          \<lparr>message = [128173] @ str_of '' I sense you might be going through something difficult. Remember, it's okay to not be okay.'',
           tips = [
             [128705] @ str_of '' Take a warm bath or shower'',
             [128218] @ str_of '' Read a comforting book or watch a feel-good movie'',
             [127861] @ str_of '' Make yourself a warm drink'',
             [128172] @ str_of '' Consider talking to a mental health professional'']\<rparr>)
     else
       \<lparr>message = [129300] @ str_of '' Your feelings seem mixed right now, which is completely normal.'',
        tips = [
          [128211] @ str_of '' Try journaling to explore your thoughts'',
          [128694, 8205, 9792, 65039] @ str_of '' Take a mindful walk to clear your head'',
          [127925] @ str_of '' Listen to music that resonates with your mood'',
          [129496, 8205, 9792, 65039] @ str_of '' Try a brief meditation or breathing exercise'']\<rparr>)"

text \<open>
  A lowercasing function for the concrete evaluations below: it maps \<open>A\<close>..\<open>Z\<close> to
  \<open>a\<close>..\<open>z\<close> and leaves every other code point alone, which is what
  \<open>str.lower\<close> does on ASCII text.
\<close>

definition ascii_lower :: "pystr \<Rightarrow> pystr" where
  "ascii_lower s = map (\<lambda>c. if 65 \<le> c \<and> c \<le> 90 then c + 32 else c) s"

section \<open>The \<open>/predict\<close> handler\<close>

text \<open>
  The value that \<open>json.loads\<close> builds from a request body. An object is the list
  of the items of the resulting \<open>dict\<close>, whose keys are distinct.
\<close>

datatype json =
    JNull
  | JBool bool
  | JInt int
  | JFloat pyfloat
  | JString pystr
  | JArray "json list"
  | JObject "(pystr \<times> json) list"

text \<open>Python's truth value of such a value, as \<open>not data\<close> tests it.\<close>

fun truthy :: "json \<Rightarrow> bool" where
  "truthy JNull = False"
| "truthy (JBool b) = b"
| "truthy (JInt n) = (n \<noteq> 0)"
| "truthy (JFloat x) = (x \<noteq> Float 0)"
| "truthy (JString s) = (s \<noteq> [])"
| "truthy (JArray xs) = (xs \<noteq> [])"
| "truthy (JObject items) = (items \<noteq> [])"

fun type_name :: "json \<Rightarrow> pystr" where
  "type_name JNull = str_of ''NoneType''"
| "type_name (JBool b) = str_of ''bool''"
| "type_name (JInt n) = str_of ''int''"
| "type_name (JFloat x) = str_of ''float''"
| "type_name (JString s) = str_of ''str''"
| "type_name (JArray xs) = str_of ''list''"
| "type_name (JObject items) = str_of ''dict''"

text \<open>
  The text of the \<open>AttributeError\<close> that a method call on a value without that
  method raises; code point 39 is the apostrophe.
\<close>

definition no_attribute :: "json \<Rightarrow> pystr \<Rightarrow> pystr" where
  "no_attribute v attr =
     [39] @ type_name v @ [39] @ str_of '' object has no attribute '' @ [39] @ attr @ [39]"

text \<open>\<open>d.get(key, default)\<close> on the items of a \<open>dict\<close>.\<close>

definition dict_get :: "(pystr \<times> json) list \<Rightarrow> pystr \<Rightarrow> json \<Rightarrow> json" where
  "dict_get items key dflt = (case map_of items key of None \<Rightarrow> dflt | Some v \<Rightarrow> v)"

text \<open>
  \<open>str.strip()\<close> removes the leading and trailing whitespace, where whitespace is
  the code points for which \<open>str.isspace\<close> holds: the ASCII controls 9..13 and
  28..31, the space, and the Unicode spaces and line separators.
\<close>

definition isspace :: "nat \<Rightarrow> bool" where
  "isspace c =
     ((9 \<le> c \<and> c \<le> 13) \<or> (28 \<le> c \<and> c \<le> 32) \<or> c = 133 \<or> c = 160 \<or> c = 5760 \<or>
      (8192 \<le> c \<and> c \<le> 8202) \<or> c = 8232 \<or> c = 8233 \<or> c = 8239 \<or> c = 8287 \<or> c = 12288)"

definition strip :: "pystr \<Rightarrow> pystr" where
  "strip s = rev (dropWhile isspace (rev (dropWhile isspace s)))"

text \<open>
  The route accepts \<open>POST\<close> and \<open>OPTIONS\<close>. Of a request the handler reads
  \<open>request.method\<close> (the field \<open>method'\<close>) and \<open>request.get_json(force=True)\<close>, which either raises (\<open>Inl\<close> holds
  \<open>str(e)\<close> of the exception) or returns the parsed body.
\<close>

datatype http_method = POST | OPTIONS

record request =
  method' :: http_method
  get_json :: "pystr + json"

text \<open>A response is \<open>jsonify\<close> of a dictionary together with the HTTP status.\<close>

record response =
  status_code :: nat
  body :: json

text \<open>
  The sentiment pipeline is an opaque dependency: called on a text it raises (\<open>Inl\<close>
  holds \<open>str(e)\<close>) or returns a list of results, each with a \<open>label\<close> and a
  \<open>score\<close>. The global \<open>sentiment_analyzer\<close> is \<open>None\<close> when loading failed.
\<close>

type_synonym analyzer = "pystr \<Rightarrow> pystr + (pystr \<times> pyfloat) list"

definition error_response :: "pystr \<Rightarrow> nat \<Rightarrow> response" where
  "error_response msg code =
     \<lparr>status_code = code,
      body = JObject [(str_of ''error'', JString msg), (str_of ''status'', JString (str_of ''error''))]\<rparr>"

text \<open>The \<open>except Exception as e\<close> clause around the body of the handler.\<close>

definition internal_server_error :: "pystr \<Rightarrow> response" where
  "internal_server_error e = error_response (str_of ''Internal server error: '' @ e) 500"

text \<open>
  \<open>predict()\<close>. The model returns the response together with the texts on which the
  pipeline was called, in order; the calls to the logger are left out, they write to
  the log only.
\<close>

definition predict ::
  "(pystr \<Rightarrow> pystr) \<Rightarrow> analyzer option \<Rightarrow> request \<Rightarrow> response \<times> pystr list" where
  "predict lower sentiment_analyzer request =
    (if method' request = OPTIONS then
       (\<lparr>status_code = 200, body = JObject [(str_of ''status'', JString (str_of ''OK''))]\<rparr>, [])
     else
       case get_json request of
         Inl e \<Rightarrow> (internal_server_error e, [])
       | Inr data \<Rightarrow>
           if \<not> truthy data then
             (error_response (str_of ''No JSON data provided'') 400, [])
           else
             (case data of
                JObject items \<Rightarrow>
                  (case dict_get items (str_of ''text'') (JString []) of
                     JString raw \<Rightarrow>
                       (let text = strip raw in
                        if text = [] then
                          (error_response (str_of ''No text provided or text is empty'') 400, [])
                        else if length text > 1000 then
                          (error_response
                             (str_of ''Text too long. Please keep it under 1000 characters.'') 400, [])
                        else
                          (case sentiment_analyzer of
                             None \<Rightarrow>
                               (error_response (str_of ''Sentiment analysis model not available'') 500, [])
                           | Some analyze \<Rightarrow>
                               (case analyze text of
                                  Inl e \<Rightarrow> (internal_server_error e, [text])
                                | Inr [] \<Rightarrow>
                                    (internal_server_error (str_of ''list index out of range''), [text])
                                | Inr ((sentiment, score) # _) \<Rightarrow>
                                    (let recommendations =
                                       get_personalized_recommendation lower sentiment score text
                                     in
                                       (\<lparr>status_code = 200,
                                         body = JObject [
                                           (str_of ''sentiment'', JString sentiment),
                                           (str_of ''recommendation'', JString (message recommendations)),
                                           (str_of ''confidence_score'', JFloat score),
                                           (str_of ''additional_tips'',
                                              JArray (map JString (tips recommendations))),
                                           (str_of ''status'', JString (str_of ''success''))]\<rparr>,
                                        [text])))))
                   | v \<Rightarrow> (internal_server_error (no_attribute v (str_of ''strip'')), []))
              | v \<Rightarrow> (internal_server_error (no_attribute v (str_of ''get'')), [])))"

text \<open>
  A pipeline for the concrete evaluations below: it answers every text with the single
  result \<open>NEGATIVE\<close> at score 0.97.
\<close>

definition sample_analyzer :: analyzer where
  "sample_analyzer text = Inr [(str_of ''NEGATIVE'', Float (97 / 100))]"

section \<open>The module state, written out\<close>

text \<open>
  What a call can read or write outside its arguments: the module global
  \<open>sentiment_analyzer\<close> (\<open>None\<close> when loading failed), the records written through
  the module's \<open>logger\<close>, and the texts on which the pipeline has been called. A log
  record is kept as the call that wrote it with the values it formats.
\<close>

datatype log_record =
    Info_received json
  | Info_analyzing pystr
  | Info_result pystr pyfloat
  | Info_sending json
  | Error_predict pystr

record world =
  loaded_analyzer :: "analyzer option"
  logged :: "log_record list"
  pipeline_calls :: "pystr list"

definition write_log :: "log_record \<Rightarrow> world \<Rightarrow> world" where
  "write_log r w = w\<lparr>logged := logged w @ [r]\<rparr>"

text \<open>
  The selector as a call in a world. Its body names none of the globals of the module
  (\<open>app\<close>, \<open>logger\<close>, \<open>sentiment_analyzer\<close>), neither \<open>request\<close>; it assigns to its
  locals \<open>text_lower\<close>, \<open>message\<close> and \<open>tips\<close> only, and the one call it makes is
  \<open>text.lower()\<close>. So the call hands the world back as it received it.
\<close>

definition get_personalized_recommendation_st ::
  "(pystr \<Rightarrow> pystr) \<Rightarrow> pystr \<Rightarrow> pyfloat \<Rightarrow> pystr \<Rightarrow> world \<Rightarrow> recommendation \<times> world" where
  "get_personalized_recommendation_st lower sentiment confidence text w =
     (get_personalized_recommendation lower sentiment confidence text, w)"

text \<open>
  The \<open>except Exception as e\<close> clause in a world: it writes the error to the log and
  answers with status 500.
\<close>

definition except_clause :: "pystr \<Rightarrow> world \<Rightarrow> response \<times> world" where
  "except_clause e w = (internal_server_error e, write_log (Error_predict e) w)"

text \<open>
  The handler as a call in a world, statement by statement: it reads the global, writes
  its log records, calls the pipeline and calls the selector.
\<close>

definition predict_st :: "(pystr \<Rightarrow> pystr) \<Rightarrow> request \<Rightarrow> world \<Rightarrow> response \<times> world" where
  "predict_st lower request w =
    (if method' request = OPTIONS then
       (\<lparr>status_code = 200, body = JObject [(str_of ''status'', JString (str_of ''OK''))]\<rparr>, w)
     else
       case get_json request of
         Inl e \<Rightarrow> except_clause e w
       | Inr data \<Rightarrow>
           (let w1 = write_log (Info_received data) w in
            if \<not> truthy data then
              (error_response (str_of ''No JSON data provided'') 400, w1)
            else
              (case data of
                 JObject items \<Rightarrow>
                   (case dict_get items (str_of ''text'') (JString []) of
                      JString raw \<Rightarrow>
                        (let text = strip raw in
                         if text = [] then
                           (error_response (str_of ''No text provided or text is empty'') 400, w1)
                         else if length text > 1000 then
                           (error_response
                              (str_of ''Text too long. Please keep it under 1000 characters.'') 400, w1)
                         else
                           (case loaded_analyzer w1 of
                              None \<Rightarrow>
                                (error_response (str_of ''Sentiment analysis model not available'') 500, w1)
                            | Some analyze \<Rightarrow>
                                (let w2 = write_log (Info_analyzing (take 50 text)) w1;
                                     w3 = w2\<lparr>pipeline_calls := pipeline_calls w2 @ [text]\<rparr>
                                 in
                                   case analyze text of
                                     Inl e \<Rightarrow> except_clause e w3
                                   | Inr [] \<Rightarrow> except_clause (str_of ''list index out of range'') w3
                                   | Inr ((sentiment, score) # _) \<Rightarrow>
                                       (let w4 = write_log (Info_result sentiment score) w3;
                                            (recommendations, w5) =
                                              get_personalized_recommendation_st lower sentiment score text w4;
                                            response_data = JObject [
                                              (str_of ''sentiment'', JString sentiment),
                                              (str_of ''recommendation'', JString (message recommendations)),
                                              (str_of ''confidence_score'', JFloat score),
                                              (str_of ''additional_tips'',
                                                 JArray (map JString (tips recommendations))),
                                              (str_of ''status'', JString (str_of ''success''))];
                                            w6 = write_log (Info_sending response_data) w5
                                        in (\<lparr>status_code = 200, body = response_data\<rparr>, w6)))))
                    | v \<Rightarrow> except_clause (no_attribute v (str_of ''strip'')) w1)
               | v \<Rightarrow> except_clause (no_attribute v (str_of ''get'')) w1)))"

section \<open>Properties of the selector\<close>

lemma str_of_eq_iff: "str_of a = str_of b \<longleftrightarrow> a = b"
  by (simp add: str_of_def inj_map_eq_map inj_on_def)

text \<open>
  C1. For the label \<open>POSITIVE\<close> the selector decides by the confidence alone: above
  the literal \<open>0.9\<close> it returns the "radiating positive energy" message with its four
  tips, and for every confidence that is not above it (NaN included) the "feeling good"
  message with its four tips.
\<close>

theorem positive_selects_by_confidence:
  "(float_gt confidence lit_0_9 \<longrightarrow>
      get_personalized_recommendation lower (str_of ''POSITIVE'') confidence text =
        \<lparr>message = [127775] @ str_of '' You're radiating positive energy! This is wonderful to see.'',
         tips = [
           [127925] @ str_of '' Listen to your favorite uplifting music'',
           [128222] @ str_of '' Share this positive energy with a friend'',
           [128221] @ str_of '' Write down what made you feel good today'',
           [127793] @ str_of '' Use this momentum for a creative project'']\<rparr>) \<and>
   (\<not> float_gt confidence lit_0_9 \<longrightarrow>
      get_personalized_recommendation lower (str_of ''POSITIVE'') confidence text =
        \<lparr>message = [128522] @ str_of '' You seem to be feeling good! Let's build on these positive vibes.'',
         tips = [
           [128694, 8205, 9792, 65039] @ str_of '' Take a pleasant walk outside'',
           [128214] @ str_of '' Read something inspiring'',
           [129496, 8205, 9792, 65039] @ str_of '' Practice gratitude meditation'',
           [128170] @ str_of '' Try a fun physical activity'']\<rparr>)"
  by (simp add: get_personalized_recommendation_def)

theorem positive_selects_by_confidence_witness:
  "float_gt (Float (95 / 100)) lit_0_9 \<and>
   message (get_personalized_recommendation ascii_lower (str_of ''POSITIVE'') (Float (95 / 100))
      (str_of ''What a lovely day'')) =
     [127775] @ str_of '' You're radiating positive energy! This is wonderful to see.'' \<and>
   \<not> float_gt NaN lit_0_9 \<and>
   message (get_personalized_recommendation ascii_lower (str_of ''POSITIVE'') NaN
      (str_of ''What a lovely day'')) =
     [128522] @ str_of '' You seem to be feeling good! Let's build on these positive vibes.''"
  using positive_selects_by_confidence
          [of "Float (95 / 100)" ascii_lower "str_of ''What a lovely day''"]
        positive_selects_by_confidence
          [of NaN ascii_lower "str_of ''What a lovely day''"]
  by (simp add: lit_0_9_def)

text \<open>
  The translation of \<open>in\<close> is substring containment, and \<open>any\<close> over the keyword
  list holds exactly when one of the keywords is contained.
\<close>

lemma str_in_iff: "str_in sub s \<longleftrightarrow> (\<exists>p q. s = p @ sub @ q)"
proof (induction s)
  case Nil
  then show ?case by auto
next
  case (Cons c cs)
  show ?case
  proof
    assume "str_in sub (c # cs)"
    then consider "prefix sub (c # cs)" | "str_in sub cs" by auto
    then show "\<exists>p q. c # cs = p @ sub @ q"
    proof cases
      case 1
      then obtain q where "c # cs = sub @ q" by (auto simp: prefix_def)
      then have "c # cs = [] @ sub @ q" by simp
      then show ?thesis by blast
    next
      case 2
      with Cons.IH obtain p q where "cs = p @ sub @ q" by blast
      then have "c # cs = (c # p) @ sub @ q" by simp
      then show ?thesis by blast
    qed
  next
    assume "\<exists>p q. c # cs = p @ sub @ q"
    then obtain p q where pq: "c # cs = p @ sub @ q" by blast
    show "str_in sub (c # cs)"
    proof (cases p)
      case Nil
      with pq have "prefix sub (c # cs)" by (simp add: prefix_def)
      then show ?thesis by simp
    next
      case (Cons a p')
      with pq have "cs = p' @ sub @ q" by simp
      with Cons.IH have "str_in sub cs" by blast
      then show ?thesis by simp
    qed
  qed
qed

lemma any_word_in_iff: "any_word_in words s \<longleftrightarrow> (\<exists>w \<in> set words. str_in w s)"
  by (induction words) auto

text \<open>
  C2. For the label \<open>NEGATIVE\<close> the selector decides by substring checks on the
  lowercased text, in nested order: one of \<open>anxious\<close>, \<open>anxiety\<close>, \<open>worried\<close>,
  \<open>stress\<close> gives the anxiety message; otherwise one of \<open>sad\<close>, \<open>depressed\<close>,
  \<open>down\<close>, \<open>upset\<close> gives the tough-time message; otherwise one of \<open>angry\<close>,
  \<open>mad\<close>, \<open>frustrated\<close>, \<open>irritated\<close> gives the frustration message; otherwise the
  default message is returned. Each message comes with its own four tips.
\<close>

theorem negative_selects_by_keywords:
  "(let L = lower text;
        r = get_personalized_recommendation lower (str_of ''NEGATIVE'') confidence text;
        anxious = (str_in (str_of ''anxious'') L \<or> str_in (str_of ''anxiety'') L \<or>
                   str_in (str_of ''worried'') L \<or> str_in (str_of ''stress'') L);
        sad = (str_in (str_of ''sad'') L \<or> str_in (str_of ''depressed'') L \<or>
               str_in (str_of ''down'') L \<or> str_in (str_of ''upset'') L);
        angry = (str_in (str_of ''angry'') L \<or> str_in (str_of ''mad'') L \<or>
                 str_in (str_of ''frustrated'') L \<or> str_in (str_of ''irritated'') L)
    in
      (anxious \<longrightarrow> r =
         \<lparr>message = [128524] @ str_of '' I understand you're feeling anxious. Remember, this feeling will pass.'',
          tips = [
            [129729] @ str_of '' Try deep breathing exercises (4-7-8 technique)'',
            [129496, 8205, 9792, 65039] @ str_of '' Practice a 5-minute mindfulness meditation'',
            [128241] @ str_of '' Use a calming app like Headspace or Calm'',
            [9742, 65039] @ str_of '' Consider talking to a trusted friend or counselor'']\<rparr>) \<and>
      (\<not> anxious \<and> sad \<longrightarrow> r =
         \<lparr>message = [128153] @ str_of '' I hear that you're going through a tough time. Your feelings are valid.'',
          tips = [
            [127749] @ str_of '' Try to get some natural sunlight'',
            [127912] @ str_of '' Express yourself through art, writing, or music'',
            [127939, 8205, 9792, 65039] @ str_of '' Light exercise can help boost mood'',
            [129303] @ str_of '' Reach out to someone who cares about you'']\<rparr>) \<and>
      (\<not> anxious \<and> \<not> sad \<and> angry \<longrightarrow> r =
         \<lparr>message = [128548] @ str_of '' It sounds like you're feeling frustrated. Let's work on channeling this energy.'',
          tips = [
            [128168] @ str_of '' Take 10 deep breaths before reacting'',
            [127947, 65039, 8205, 9792, 65039] @ str_of '' Try physical exercise to release tension'',
            [128221] @ str_of '' Write down your feelings in a journal'',
            [127919] @ str_of '' Focus on what you can control in the situation'']\<rparr>) \<and>
      (\<not> anxious \<and> \<not> sad \<and> \<not> angry \<longrightarrow> r =
         \<lparr>message = [128173] @ str_of '' I sense you might be going through something difficult. Remember, it's okay to not be okay.'',
          tips = [
            [128705] @ str_of '' Take a warm bath or shower'',
            [128218] @ str_of '' Read a comforting book or watch a feel-good movie'',
            [127861] @ str_of '' Make yourself a warm drink'',
            [128172] @ str_of '' Consider talking to a mental health professional'']\<rparr>))"
proof -
  have neg: "str_of ''NEGATIVE'' \<noteq> str_of ''POSITIVE''"
    by (simp add: str_of_eq_iff)
  show ?thesis
    unfolding get_personalized_recommendation_def Let_def
    using neg by simp
qed

theorem negative_selects_by_keywords_witness:
  "str_in (str_of ''stress'') (ascii_lower (str_of ''I am SO Stressed and sad'')) \<and>
   message (get_personalized_recommendation ascii_lower (str_of ''NEGATIVE'') (Float (99 / 100))
      (str_of ''I am SO Stressed and sad'')) =
     [128524] @ str_of '' I understand you're feeling anxious. Remember, this feeling will pass.'' \<and>
   str_in (str_of ''down'') (ascii_lower (str_of ''Feeling DOWN today'')) \<and>
   message (get_personalized_recommendation ascii_lower (str_of ''NEGATIVE'') (Float (99 / 100))
      (str_of ''Feeling DOWN today'')) =
     [128153] @ str_of '' I hear that you're going through a tough time. Your feelings are valid.'' \<and>
   str_in (str_of ''mad'') (ascii_lower (str_of ''This makes me Mad'')) \<and>
   message (get_personalized_recommendation ascii_lower (str_of ''NEGATIVE'') (Float (99 / 100))
      (str_of ''This makes me Mad'')) =
     [128548] @ str_of '' It sounds like you're feeling frustrated. Let's work on channeling this energy.'' \<and>
   message (get_personalized_recommendation ascii_lower (str_of ''NEGATIVE'') (Float (99 / 100))
      (str_of ''Nothing works'')) =
     [128173] @ str_of '' I sense you might be going through something difficult. Remember, it's okay to not be okay.''"
  using negative_selects_by_keywords
          [of ascii_lower "str_of ''I am SO Stressed and sad''" "Float (99 / 100)"]
        negative_selects_by_keywords
          [of ascii_lower "str_of ''Feeling DOWN today''" "Float (99 / 100)"]
        negative_selects_by_keywords
          [of ascii_lower "str_of ''This makes me Mad''" "Float (99 / 100)"]
        negative_selects_by_keywords
          [of ascii_lower "str_of ''Nothing works''" "Float (99 / 100)"]
  by (simp add: Let_def str_of_def ascii_lower_def)

text \<open>
  C5. The selector is total and its result has a fixed shape: for every label, every
  confidence and every text the message is not empty and there are exactly four tips.
  A label other than \<open>POSITIVE\<close> and \<open>NEGATIVE\<close> takes the last branch, with the
  "mixed feelings" message.
\<close>

theorem selector_total_fixed_shape:
  "message (get_personalized_recommendation lower sentiment confidence text) \<noteq> [] \<and>
   length (tips (get_personalized_recommendation lower sentiment confidence text)) = 4 \<and>
   (sentiment \<noteq> str_of ''POSITIVE'' \<and> sentiment \<noteq> str_of ''NEGATIVE'' \<longrightarrow>
      get_personalized_recommendation lower sentiment confidence text =
        \<lparr>message = [129300] @ str_of '' Your feelings seem mixed right now, which is completely normal.'',
         tips = [
           [128211] @ str_of '' Try journaling to explore your thoughts'',
           [128694, 8205, 9792, 65039] @ str_of '' Take a mindful walk to clear your head'',
           [127925] @ str_of '' Listen to music that resonates with your mood'',
           [129496, 8205, 9792, 65039] @ str_of '' Try a brief meditation or breathing exercise'']\<rparr>)"
  by (simp add: get_personalized_recommendation_def Let_def)

theorem selector_total_fixed_shape_witness:
  "str_of ''NEUTRAL'' \<noteq> str_of ''POSITIVE'' \<and> str_of ''NEUTRAL'' \<noteq> str_of ''NEGATIVE'' \<and>
   message (get_personalized_recommendation ascii_lower (str_of ''NEUTRAL'') (Float (1 / 2))
      (str_of ''so sad'')) =
     [129300] @ str_of '' Your feelings seem mixed right now, which is completely normal.'' \<and>
   length (tips (get_personalized_recommendation ascii_lower (str_of ''NEUTRAL'') (Float (1 / 2))
      (str_of ''so sad''))) = 4"
  using selector_total_fixed_shape [of ascii_lower "str_of ''NEUTRAL''" "Float (1 / 2)" "str_of ''so sad''"]
  by (simp add: str_of_eq_iff)



text \<open>
  The same does not hold of the handler, which reads the global and writes the log: one
  request is answered differently in two worlds, and the world it returns has a new log
  record.
\<close>

lemma predict_st_reads_and_writes:
  "fst (predict_st ascii_lower
          \<lparr>method' = POST, get_json = Inr (JObject [(str_of ''text'', JString [104, 105])])\<rparr>
          \<lparr>loaded_analyzer = None, logged = [], pipeline_calls = []\<rparr>) \<noteq>
   fst (predict_st ascii_lower
          \<lparr>method' = POST, get_json = Inr (JObject [(str_of ''text'', JString [104, 105])])\<rparr>
          \<lparr>loaded_analyzer = Some sample_analyzer, logged = [], pipeline_calls = []\<rparr>) \<and>
   snd (predict_st ascii_lower
          \<lparr>method' = POST, get_json = Inr (JObject [(str_of ''text'', JString [104, 105])])\<rparr>
          \<lparr>loaded_analyzer = None, logged = [], pipeline_calls = []\<rparr>) =
     \<lparr>loaded_analyzer = None,
      logged = [Info_received (JObject [(str_of ''text'', JString [104, 105])])],
      pipeline_calls = []\<rparr>"
  by (simp add: predict_st_def dict_get_def Let_def strip_def isspace_def write_log_def
        sample_analyzer_def get_personalized_recommendation_st_def error_response_def)

text \<open>
  C8. For the label \<open>POSITIVE\<close> the result does not depend on the text: any two texts
  give the same message and tips at the same confidence.
\<close>

theorem positive_ignores_text:
  "get_personalized_recommendation lower (str_of ''POSITIVE'') confidence text1 =
   get_personalized_recommendation lower (str_of ''POSITIVE'') confidence text2"
  by (simp add: get_personalized_recommendation_def)

text \<open>
  C9. The threshold is strict: at a confidence equal to \<open>0.9\<close> the label \<open>POSITIVE\<close>
  gets the "feeling good" message and not the "radiating positive energy" one. This
  holds at the double that the literal denotes and at the real number nine tenths.
\<close>

theorem positive_threshold_strict:
  "message (get_personalized_recommendation lower (str_of ''POSITIVE'') lit_0_9 text) =
     [128522] @ str_of '' You seem to be feeling good! Let's build on these positive vibes.'' \<and>
   message (get_personalized_recommendation lower (str_of ''POSITIVE'') lit_0_9 text) \<noteq>
     [127775] @ str_of '' You're radiating positive energy! This is wonderful to see.'' \<and>
   message (get_personalized_recommendation lower (str_of ''POSITIVE'') (Float (9 / 10)) text) =
     [128522] @ str_of '' You seem to be feeling good! Let's build on these positive vibes.'' \<and>
   message (get_personalized_recommendation lower (str_of ''POSITIVE'') (Float (9 / 10)) text) \<noteq>
     [127775] @ str_of '' You're radiating positive energy! This is wonderful to see.''"
  by (simp add: get_personalized_recommendation_def lit_0_9_def)

section \<open>Properties of the handler\<close>

text \<open>
  C4. When the model failed to load (the global is \<open>None\<close>), every \<open>POST\<close> request
  that passes the presence and the length check gets status 500 with the error
  "Sentiment analysis model not available" and the status field "error"; the pipeline
  is not called.
\<close>

theorem model_unavailable_gives_500:
  "map_of items (str_of ''text'') = Some (JString raw) \<Longrightarrow>
   strip raw \<noteq> [] \<Longrightarrow> length (strip raw) \<le> 1000 \<Longrightarrow>
   predict lower None \<lparr>method' = POST, get_json = Inr (JObject items)\<rparr> =
     (\<lparr>status_code = 500,
       body = JObject [(str_of ''error'', JString (str_of ''Sentiment analysis model not available'')),
                       (str_of ''status'', JString (str_of ''error''))]\<rparr>, [])"
  by (auto simp: predict_def dict_get_def error_response_def Let_def)

lemma strip_hello: "strip (str_of ''  I feel great  '') = str_of ''I feel great''"
  by (simp add: strip_def str_of_def isspace_def)

theorem model_unavailable_gives_500_witness:
  "map_of [(str_of ''text'', JString (str_of ''  I feel great  ''))] (str_of ''text'') =
     Some (JString (str_of ''  I feel great  '')) \<and>
   strip (str_of ''  I feel great  '') \<noteq> [] \<and>
   length (strip (str_of ''  I feel great  '')) \<le> 1000 \<and>
   status_code (fst (predict ascii_lower None
     \<lparr>method' = POST,
      get_json = Inr (JObject [(str_of ''text'', JString (str_of ''  I feel great  ''))])\<rparr>)) = 500"
proof -
  have a: "map_of [(str_of ''text'', JString (str_of ''  I feel great  ''))] (str_of ''text'') =
     Some (JString (str_of ''  I feel great  ''))"
    by simp
  have b: "strip (str_of ''  I feel great  '') \<noteq> []"
    by (simp add: strip_hello) (simp add: str_of_def)
  have c: "length (strip (str_of ''  I feel great  '')) \<le> 1000"
    by (simp add: strip_hello) (simp add: str_of_def)
  from model_unavailable_gives_500 [OF a b c, of ascii_lower] a b c show ?thesis
    by simp
qed

text \<open>
  C7. On a successful prediction (a \<open>POST\<close> request that passes validation, a loaded
  pipeline that returns a result for the text) the response has status 200 and its
  body has exactly the fields \<open>sentiment\<close>, \<open>recommendation\<close>, \<open>confidence_score\<close>,
  \<open>additional_tips\<close> and \<open>status\<close>: the label and the score are those of the first
  result of the pipeline, the recommendation and the tips are the message and the tips
  of the selector for that label, score and text, and the status is "success". The
  text that the pipeline and the selector receive is the submitted text as the handler
  holds it, with the surrounding whitespace stripped.
\<close>

theorem success_response_fields:
  "map_of items (str_of ''text'') = Some (JString raw) \<Longrightarrow>
   strip raw \<noteq> [] \<Longrightarrow> length (strip raw) \<le> 1000 \<Longrightarrow>
   analyze (strip raw) = Inr ((label, score) # others) \<Longrightarrow>
   predict lower (Some analyze) \<lparr>method' = POST, get_json = Inr (JObject items)\<rparr> =
     (\<lparr>status_code = 200,
       body = JObject [
         (str_of ''sentiment'', JString label),
         (str_of ''recommendation'',
            JString (message (get_personalized_recommendation lower label score (strip raw)))),
         (str_of ''confidence_score'', JFloat score),
         (str_of ''additional_tips'',
            JArray (map JString (tips (get_personalized_recommendation lower label score (strip raw))))),
         (str_of ''status'', JString (str_of ''success''))]\<rparr>,
      [strip raw])"
  by (auto simp: predict_def dict_get_def Let_def)

theorem success_response_fields_witness:
  "map_of [(str_of ''text'', JString (str_of ''  I feel great  ''))] (str_of ''text'') =
     Some (JString (str_of ''  I feel great  '')) \<and>
   strip (str_of ''  I feel great  '') \<noteq> [] \<and>
   length (strip (str_of ''  I feel great  '')) \<le> 1000 \<and>
   sample_analyzer (strip (str_of ''  I feel great  '')) =
     Inr ((str_of ''NEGATIVE'', Float (97 / 100)) # []) \<and>
   predict ascii_lower (Some sample_analyzer)
     \<lparr>method' = POST,
      get_json = Inr (JObject [(str_of ''text'', JString (str_of ''  I feel great  ''))])\<rparr> =
     (\<lparr>status_code = 200,
       body = JObject [
         (str_of ''sentiment'', JString (str_of ''NEGATIVE'')),
         (str_of ''recommendation'',
            JString ([128173] @ str_of '' I sense you might be going through something difficult. Remember, it's okay to not be okay.'')),
         (str_of ''confidence_score'', JFloat (Float (97 / 100))),
         (str_of ''additional_tips'', JArray [
            JString ([128705] @ str_of '' Take a warm bath or shower''),
            JString ([128218] @ str_of '' Read a comforting book or watch a feel-good movie''),
            JString ([127861] @ str_of '' Make yourself a warm drink''),
            JString ([128172] @ str_of '' Consider talking to a mental health professional'')]),
         (str_of ''status'', JString (str_of ''success''))]\<rparr>,
      [str_of ''I feel great''])"
proof -
  have a: "map_of [(str_of ''text'', JString (str_of ''  I feel great  ''))] (str_of ''text'') =
     Some (JString (str_of ''  I feel great  ''))"
    by simp
  have b: "strip (str_of ''  I feel great  '') \<noteq> []"
    by (simp add: strip_hello) (simp add: str_of_def)
  have c: "length (strip (str_of ''  I feel great  '')) \<le> 1000"
    by (simp add: strip_hello) (simp add: str_of_def)
  have d: "sample_analyzer (strip (str_of ''  I feel great  '')) =
     Inr ((str_of ''NEGATIVE'', Float (97 / 100)) # [])"
    by (simp add: sample_analyzer_def)
  have e: "get_personalized_recommendation ascii_lower (str_of ''NEGATIVE'') (Float (97 / 100))
        (str_of ''I feel great'') =
      \<lparr>message = [128173] @ str_of '' I sense you might be going through something difficult. Remember, it's okay to not be okay.'',
       tips = [
         [128705] @ str_of '' Take a warm bath or shower'',
         [128218] @ str_of '' Read a comforting book or watch a feel-good movie'',
         [127861] @ str_of '' Make yourself a warm drink'',
         [128172] @ str_of '' Consider talking to a mental health professional'']\<rparr>"
    by (simp add: get_personalized_recommendation_def Let_def str_of_def ascii_lower_def)
  from success_response_fields [where analyze = sample_analyzer and lower = ascii_lower, OF a b c d]
    a b c d show ?thesis
    by (simp add: strip_hello e)
qed

lemma strip_Nil: "strip [] = []"
  by (simp add: strip_def)

text \<open>
  C3, as first stated, asks for the error "No text provided or text is empty" on every
  body without a \<open>text\<close> field. The empty object \<open>{}\<close> has no such field, but it
  is falsy, so the earlier guard \<open>if not data\<close> answers it with "No JSON data
  provided".
\<close>

theorem empty_object_counterexample:
  "map_of ([] :: (pystr \<times> json) list) (str_of ''text'') = None \<and>
   fst (predict ascii_lower (Some sample_analyzer) \<lparr>method' = POST, get_json = Inr (JObject [])\<rparr>) =
     \<lparr>status_code = 400,
      body = JObject [(str_of ''error'', JString (str_of ''No JSON data provided'')),
                      (str_of ''status'', JString (str_of ''error''))]\<rparr> \<and>
   fst (predict ascii_lower (Some sample_analyzer) \<lparr>method' = POST, get_json = Inr (JObject [])\<rparr>) \<noteq>
     \<lparr>status_code = 400,
      body = JObject [(str_of ''error'', JString (str_of ''No text provided or text is empty'')),
                      (str_of ''status'', JString (str_of ''error''))]\<rparr>"
  by (simp add: predict_def error_response_def str_of_eq_iff)

text \<open>
  C3, amended. For a \<open>POST\<close> request whose body is a JSON object, whatever the state
  of the pipeline: the empty object gets status 400 with "No JSON data provided"; a
  non-empty object without a \<open>text\<close> field, and an object whose \<open>text\<close> is a string
  that is empty after stripping whitespace, get status 400 with "No text provided or
  text is empty"; an object whose \<open>text\<close> is a string of more than 1000 characters
  after stripping gets status 400 with "Text too long. Please keep it under 1000
  characters.". In all four cases the pipeline is not called.
\<close>

theorem validation_rejects_before_analysis:
  "(items = [] \<longrightarrow>
      predict lower sentiment_analyzer \<lparr>method' = POST, get_json = Inr (JObject items)\<rparr> =
        (error_response (str_of ''No JSON data provided'') 400, [])) \<and>
   (items \<noteq> [] \<and> map_of items (str_of ''text'') = None \<longrightarrow>
      predict lower sentiment_analyzer \<lparr>method' = POST, get_json = Inr (JObject items)\<rparr> =
        (error_response (str_of ''No text provided or text is empty'') 400, [])) \<and>
   (map_of items (str_of ''text'') = Some (JString raw) \<and> strip raw = [] \<longrightarrow>
      predict lower sentiment_analyzer \<lparr>method' = POST, get_json = Inr (JObject items)\<rparr> =
        (error_response (str_of ''No text provided or text is empty'') 400, [])) \<and>
   (map_of items (str_of ''text'') = Some (JString raw) \<and> 1000 < length (strip raw) \<longrightarrow>
      predict lower sentiment_analyzer \<lparr>method' = POST, get_json = Inr (JObject items)\<rparr> =
        (error_response (str_of ''Text too long. Please keep it under 1000 characters.'') 400, []))"
  by (auto simp: predict_def dict_get_def Let_def strip_Nil)

lemma strip_blank: "strip [32, 9, 10, 160] = []"
  by (simp add: strip_def isspace_def)

lemma strip_long: "strip (replicate 1001 97) = replicate 1001 97"
  by (simp add: strip_def isspace_def)

theorem validation_rejects_before_analysis_witness:
  "predict ascii_lower (Some sample_analyzer) \<lparr>method' = POST, get_json = Inr (JObject [])\<rparr> =
     (error_response (str_of ''No JSON data provided'') 400, []) \<and>
   [(str_of ''msg'', JString (str_of ''hello''))] \<noteq> [] \<and>
   map_of [(str_of ''msg'', JString (str_of ''hello''))] (str_of ''text'') = None \<and>
   predict ascii_lower (Some sample_analyzer)
     \<lparr>method' = POST, get_json = Inr (JObject [(str_of ''msg'', JString (str_of ''hello''))])\<rparr> =
     (error_response (str_of ''No text provided or text is empty'') 400, []) \<and>
   map_of [(str_of ''text'', JString [32, 9, 10, 160])] (str_of ''text'') =
     Some (JString [32, 9, 10, 160]) \<and>
   strip [32, 9, 10, 160] = [] \<and>
   predict ascii_lower (Some sample_analyzer)
     \<lparr>method' = POST, get_json = Inr (JObject [(str_of ''text'', JString [32, 9, 10, 160])])\<rparr> =
     (error_response (str_of ''No text provided or text is empty'') 400, []) \<and>
   map_of [(str_of ''text'', JString (replicate 1001 97))] (str_of ''text'') =
     Some (JString (replicate 1001 97)) \<and>
   1000 < length (strip (replicate 1001 97)) \<and>
   predict ascii_lower (Some sample_analyzer)
     \<lparr>method' = POST, get_json = Inr (JObject [(str_of ''text'', JString (replicate 1001 97))])\<rparr> =
     (error_response (str_of ''Text too long. Please keep it under 1000 characters.'') 400, [])"
  using validation_rejects_before_analysis
          [of "[]" ascii_lower "Some sample_analyzer"]
        validation_rejects_before_analysis
          [of "[(str_of ''msg'', JString (str_of ''hello''))]" ascii_lower "Some sample_analyzer"]
        validation_rejects_before_analysis
          [of "[(str_of ''text'', JString [32, 9, 10, 160])]" ascii_lower "Some sample_analyzer"
              "[32, 9, 10, 160]"]
        validation_rejects_before_analysis
          [of "[(str_of ''text'', JString (replicate 1001 97))]" ascii_lower "Some sample_analyzer"
              "replicate 1001 97"]
  by (simp add: strip_blank strip_long str_of_eq_iff)

lemma internal_error_not_unavailable:
  "internal_server_error e \<noteq> error_response (str_of ''Sentiment analysis model not available'') 500"
  by (simp add: internal_server_error_def error_response_def str_of_def)

lemma error_response_eq_iff:
  "error_response m c = error_response m' c' \<longleftrightarrow> m = m' \<and> c = c'"
  by (auto simp: error_response_def)

lemma options_not_error: "\<lparr>status_code = 200, body = b\<rparr> \<noteq> error_response m 500"
  by (simp add: error_response_def)

text \<open>
  C10. Validation comes before the check of the model: with the pipeline not loaded, a
  \<open>POST\<close> request whose JSON object has no \<open>text\<close>, or a \<open>text\<close> that is
  whitespace only, or a \<open>text\<close> longer than 1000 characters, gets its validation
  error with status 400 (for an absent \<open>text\<close>: "No JSON data provided" when the
  object is empty, "No text provided or text is empty" otherwise). And whenever the
  answer is the 500 "Sentiment analysis model not available", the request was a
  \<open>POST\<close> with a \<open>text\<close> that passed both checks.
\<close>

theorem validation_precedes_model_check:
  "(map_of items (str_of ''text'') = None \<longrightarrow>
      fst (predict lower None \<lparr>method' = POST, get_json = Inr (JObject items)\<rparr>) =
        error_response
          (if items = [] then str_of ''No JSON data provided''
           else str_of ''No text provided or text is empty'') 400) \<and>
   (map_of items (str_of ''text'') = Some (JString raw) \<and> strip raw = [] \<longrightarrow>
      fst (predict lower None \<lparr>method' = POST, get_json = Inr (JObject items)\<rparr>) =
        error_response (str_of ''No text provided or text is empty'') 400) \<and>
   (map_of items (str_of ''text'') = Some (JString raw) \<and> 1000 < length (strip raw) \<longrightarrow>
      fst (predict lower None \<lparr>method' = POST, get_json = Inr (JObject items)\<rparr>) =
        error_response (str_of ''Text too long. Please keep it under 1000 characters.'') 400) \<and>
   (fst (predict lower None request) =
        error_response (str_of ''Sentiment analysis model not available'') 500 \<longrightarrow>
      method' request = POST \<and>
      (\<exists>items' raw'. get_json request = Inr (JObject items') \<and>
         map_of items' (str_of ''text'') = Some (JString raw') \<and>
         strip raw' \<noteq> [] \<and> length (strip raw') \<le> 1000))"
proof (intro conjI impI)
  assume "map_of items (str_of ''text'') = None"
  then show "fst (predict lower None \<lparr>method' = POST, get_json = Inr (JObject items)\<rparr>) =
        error_response
          (if items = [] then str_of ''No JSON data provided''
           else str_of ''No text provided or text is empty'') 400"
    by (simp add: predict_def dict_get_def Let_def strip_Nil)
next
  assume "map_of items (str_of ''text'') = Some (JString raw) \<and> strip raw = []"
  then show "fst (predict lower None \<lparr>method' = POST, get_json = Inr (JObject items)\<rparr>) =
        error_response (str_of ''No text provided or text is empty'') 400"
    by (auto simp: predict_def dict_get_def Let_def)
next
  assume "map_of items (str_of ''text'') = Some (JString raw) \<and> 1000 < length (strip raw)"
  then show "fst (predict lower None \<lparr>method' = POST, get_json = Inr (JObject items)\<rparr>) =
        error_response (str_of ''Text too long. Please keep it under 1000 characters.'') 400"
    by (auto simp: predict_def dict_get_def Let_def)
next
  assume r: "fst (predict lower None request) =
        error_response (str_of ''Sentiment analysis model not available'') 500"
  show "method' request = POST"
  proof (cases "method' request")
    case OPTIONS
    with r show ?thesis by (simp add: predict_def options_not_error)
  qed simp
next
  assume r: "fst (predict lower None request) =
        error_response (str_of ''Sentiment analysis model not available'') 500"
  have m: "method' request \<noteq> OPTIONS"
    using r by (auto simp: predict_def options_not_error)
  from r m obtain data where d: "get_json request = Inr data"
    by (cases "get_json request") (auto simp: predict_def internal_error_not_unavailable)
  from r m d have t: "truthy data"
    by (auto simp: predict_def error_response_eq_iff split: if_splits)
  from r m d t obtain items' where i: "data = JObject items'"
    by (cases data) (auto simp: predict_def internal_error_not_unavailable)
  from r m d t i obtain raw' where
    g: "dict_get items' (str_of ''text'') (JString []) = JString raw'"
    by (cases "dict_get items' (str_of ''text'') (JString [])")
       (auto simp: predict_def internal_error_not_unavailable)
  from r m d t i g have s: "strip raw' \<noteq> []" "length (strip raw') \<le> 1000"
    by (auto simp: predict_def Let_def error_response_eq_iff str_of_eq_iff split: if_splits)
  from s g have "map_of items' (str_of ''text'') = Some (JString raw')"
    by (auto simp: dict_get_def strip_Nil split: option.splits)
  with d i s show "\<exists>items' raw'. get_json request = Inr (JObject items') \<and>
         map_of items' (str_of ''text'') = Some (JString raw') \<and>
         strip raw' \<noteq> [] \<and> length (strip raw') \<le> 1000"
    by blast
qed

theorem validation_precedes_model_check_witness:
  "map_of [(str_of ''msg'', JString (str_of ''hello''))] (str_of ''text'') = None \<and>
   status_code (fst (predict ascii_lower None
     \<lparr>method' = POST, get_json = Inr (JObject [(str_of ''msg'', JString (str_of ''hello''))])\<rparr>)) = 400 \<and>
   map_of [(str_of ''text'', JString [32, 9, 10, 160])] (str_of ''text'') =
     Some (JString [32, 9, 10, 160]) \<and>
   strip [32, 9, 10, 160] = [] \<and>
   status_code (fst (predict ascii_lower None
     \<lparr>method' = POST, get_json = Inr (JObject [(str_of ''text'', JString [32, 9, 10, 160])])\<rparr>)) = 400 \<and>
   map_of [(str_of ''text'', JString (replicate 1001 97))] (str_of ''text'') =
     Some (JString (replicate 1001 97)) \<and>
   1000 < length (strip (replicate 1001 97)) \<and>
   status_code (fst (predict ascii_lower None
     \<lparr>method' = POST, get_json = Inr (JObject [(str_of ''text'', JString (replicate 1001 97))])\<rparr>)) = 400 \<and>
   fst (predict ascii_lower None
     \<lparr>method' = POST, get_json = Inr (JObject [(str_of ''text'', JString [104, 105])])\<rparr>) =
     error_response (str_of ''Sentiment analysis model not available'') 500 \<and>
   (\<exists>items' raw'. Inr (JObject [(str_of ''text'', JString [104, 105])]) = Inr (JObject items') \<and>
      map_of items' (str_of ''text'') = Some (JString raw') \<and>
      strip raw' \<noteq> [] \<and> length (strip raw') \<le> 1000)"
proof -
  have u: "fst (predict ascii_lower None
     \<lparr>method' = POST, get_json = Inr (JObject [(str_of ''text'', JString [104, 105])])\<rparr>) =
     error_response (str_of ''Sentiment analysis model not available'') 500"
    by (simp add: predict_def dict_get_def Let_def strip_def isspace_def)
  show ?thesis
    using validation_precedes_model_check
            [where items = "[(str_of ''msg'', JString (str_of ''hello''))]" and lower = ascii_lower]
          validation_precedes_model_check
            [where items = "[(str_of ''text'', JString [32, 9, 10, 160])]"
               and raw = "[32, 9, 10, 160]" and lower = ascii_lower]
          validation_precedes_model_check
            [where items = "[(str_of ''text'', JString (replicate 1001 97))]"
               and raw = "replicate 1001 97" and lower = ascii_lower]
          validation_precedes_model_check
            [where lower = ascii_lower and request =
               "\<lparr>method' = POST, get_json = Inr (JObject [(str_of ''text'', JString [104, 105])])\<rparr>"]
          u
    by (simp add: strip_blank strip_long str_of_eq_iff error_response_def)
qed

text \<open>
  The handler in a world gives the response and the pipeline calls of \<open>predict\<close> on
  the global of that world, and it does not rebind the global.
\<close>

lemma predict_st_response:
  "fst (predict_st lower request w) = fst (predict lower (loaded_analyzer w) request)"
  by (auto simp: predict_st_def predict_def except_clause_def write_log_def Let_def
        get_personalized_recommendation_st_def
      split: sum.splits json.splits option.splits list.splits)

lemma predict_st_calls:
  "pipeline_calls (snd (predict_st lower request w)) =
     pipeline_calls w @ snd (predict lower (loaded_analyzer w) request)"
  by (auto simp: predict_st_def predict_def except_clause_def write_log_def Let_def
        get_personalized_recommendation_st_def
      split: sum.splits json.splits option.splits list.splits)

lemma predict_st_global:
  "loaded_analyzer (snd (predict_st lower request w)) = loaded_analyzer w"
  by (auto simp: predict_st_def except_clause_def write_log_def Let_def
        get_personalized_recommendation_st_def
      split: sum.splits json.splits option.splits list.splits)

end
